theory Spec2Isabelle
  imports Complex_Main "HOL-Library.Sublist" "HOL-Library.AList"
begin

section \<open>Strings\<close>

text \<open>
  A JavaScript string is modelled as a \<^typ>\<open>string\<close>: the UTF-8 bytes of its characters, so
  that a character outside ASCII takes two to four bytes. The script takes no length of a
  string and no index into one, so that bytes in the place of UTF-16 code units make no
  difference to it. A string with an unpaired surrogate has no such bytes and is not covered.

  \<open>String.prototype.trim\<close> strips white space and line terminators at both ends. These are
  the characters U+0009 to U+000D, U+0020, U+00A0, U+1680, U+2000 to U+200A, U+2028, U+2029,
  U+202F, U+205F, U+3000 and U+FEFF, listed here by their bytes.
\<close>

definition white_space :: "string list" where
  "white_space =
     [[CHR 0x09], [CHR 0x0A], [CHR 0x0B], [CHR 0x0C], [CHR 0x0D], [CHR 0x20],
      [CHR 0xC2, CHR 0xA0], [CHR 0xE1, CHR 0x9A, CHR 0x80], [CHR 0xE2, CHR 0x80, CHR 0x80],
      [CHR 0xE2, CHR 0x80, CHR 0x81], [CHR 0xE2, CHR 0x80, CHR 0x82],
      [CHR 0xE2, CHR 0x80, CHR 0x83], [CHR 0xE2, CHR 0x80, CHR 0x84],
      [CHR 0xE2, CHR 0x80, CHR 0x85], [CHR 0xE2, CHR 0x80, CHR 0x86],
      [CHR 0xE2, CHR 0x80, CHR 0x87], [CHR 0xE2, CHR 0x80, CHR 0x88],
      [CHR 0xE2, CHR 0x80, CHR 0x89], [CHR 0xE2, CHR 0x80, CHR 0x8A],
      [CHR 0xE2, CHR 0x80, CHR 0xA8], [CHR 0xE2, CHR 0x80, CHR 0xA9],
      [CHR 0xE2, CHR 0x80, CHR 0xAF], [CHR 0xE2, CHR 0x81, CHR 0x9F],
      [CHR 0xE3, CHR 0x80, CHR 0x80], [CHR 0xEF, CHR 0xBB, CHR 0xBF]]"

text \<open>
  \<open>strip ws s\<close> takes the members of \<open>ws\<close> off the front of \<open>s\<close> for as long as one of them is
  there.
\<close>

function strip :: "string list \<Rightarrow> string \<Rightarrow> string" where
  "strip ws s =
     (case find (\<lambda>w. w \<noteq> [] \<and> prefix w s) ws of
        None \<Rightarrow> s
      | Some w \<Rightarrow> strip ws (drop (length w) s))"
  by pat_completeness auto
termination
  by (relation "measure (\<lambda>(ws, s). length s)") (auto simp add: find_Some_iff prefix_def)

declare strip.simps [simp del]

definition trimStart :: "string \<Rightarrow> string" where
  "trimStart s = strip white_space s"

definition trimEnd :: "string \<Rightarrow> string" where
  "trimEnd s = rev (strip (map rev white_space) (rev s))"

definition trim :: "string \<Rightarrow> string" where
  "trim s = trimEnd (trimStart s)"

text \<open>
  ASCII white space in the sense of HTML, which separates the tokens of a \<open>class\<close> attribute
  and the parts of a tag: tab, line feed, form feed, carriage return and space.
\<close>

definition is_ascii_whitespace :: "char \<Rightarrow> bool" where
  "is_ascii_whitespace c =
     (c = CHR 0x09 \<or> c = CHR 0x0A \<or> c = CHR 0x0C \<or> c = CHR 0x0D \<or> c = CHR '' '')"

text \<open>\<open>classList\<close>: the tokens of a \<open>class\<close> attribute.\<close>

fun class_tokens :: "string \<Rightarrow> string \<Rightarrow> string list" where
  "class_tokens acc [] = (if acc = [] then [] else [rev acc])"
| "class_tokens acc (c # cs) =
     (if is_ascii_whitespace c
      then (if acc = [] then class_tokens [] cs else rev acc # class_tokens [] cs)
      else class_tokens (c # acc) cs)"

definition classList :: "string \<Rightarrow> string list" where
  "classList s = class_tokens [] s"

section \<open>Tree nodes and their markup (\<open>buildTreeHTML\<close>)\<close>

text \<open>
  A tree node as the compilation service sends it. \<open>original_name\<close> and \<open>type_info\<close> may be
  absent; \<open>left\<close> and \<open>right\<close> may be absent or \<open>null\<close>.
\<close>

datatype TreeNode = TreeNode
  (node_type: string)
  (node_value: string)
  (original_name: "string option")
  (type_info: "string option")
  (left: "TreeNode option")
  (right: "TreeNode option")

text \<open>Truthiness of an optional string: absent and the empty string are falsy.\<close>

fun truthy :: "string option \<Rightarrow> bool" where
  "truthy None = False"
| "truthy (Some s) = (s \<noteq> [])"

text \<open>The suffix \<open>' \<rightarrow>float'\<close>: a space, U+2192 (three bytes in UTF-8) and \<open>float\<close>.\<close>

definition coercion_suffix :: string where
  "coercion_suffix = '' '' @ [CHR 0xE2, CHR 0x86, CHR 0x92] @ ''float''"

text \<open>
  The two local variables \<open>nodeClass\<close> and \<open>displayValue\<close> of \<open>buildTreeHTML\<close>, threaded
  through its two conditionals in the order of the source.
\<close>

definition styled :: "TreeNode \<Rightarrow> bool \<Rightarrow> string \<times> string" where
  "styled node showCoercion =
     (let nodeClass = ''tree-node-value'';
          displayValue = node_value node;
          (nodeClass, displayValue) =
            (if node_type node = ''OP'' \<or> node_type node = ''ASSIGN''
             then (nodeClass @ '' operator'', displayValue)
             else if node_type node = ''ID''
             then (nodeClass @ '' id'',
                   (case original_name node of
                      Some n \<Rightarrow> if truthy (Some n) then n else displayValue
                    | None \<Rightarrow> displayValue))
             else if node_type node = ''NUMBER''
             then (nodeClass @ '' number'', displayValue)
             else (nodeClass, displayValue))
      in if showCoercion \<and> type_info node = Some ''int to float''
         then (nodeClass @ '' coerced'', displayValue @ coercion_suffix)
         else (nodeClass, displayValue))"

definition nodeClass :: "TreeNode \<Rightarrow> bool \<Rightarrow> string" where
  "nodeClass node showCoercion = fst (styled node showCoercion)"

definition displayValue :: "TreeNode \<Rightarrow> bool \<Rightarrow> string" where
  "displayValue node showCoercion = snd (styled node showCoercion)"

text \<open>\<open>buildTreeHTML(node, showCoercion)\<close>: the markup, as the string the source concatenates.\<close>

fun buildTreeHTML :: "TreeNode option \<Rightarrow> bool \<Rightarrow> string" where
  \<open>buildTreeHTML None showCoercion = []\<close>
| \<open>buildTreeHTML (Some (TreeNode ty v on ti l r)) showCoercion =
     ''<div class="tree-node">''
     @ ''<div class="'' @ nodeClass (TreeNode ty v on ti l r) showCoercion @ ''">''
       @ displayValue (TreeNode ty v on ti l r) showCoercion @ ''</div>''
     @ (if l \<noteq> None \<or> r \<noteq> None
        then ''<div class="tree-children">''
             @ (if l \<noteq> None
                then ''<div class="tree-child">'' @ buildTreeHTML l showCoercion @ ''</div>''
                else [])
             @ (if r \<noteq> None
                then ''<div class="tree-child">'' @ buildTreeHTML r showCoercion @ ''</div>''
                else [])
             @ ''</div>''
        else [])
     @ ''</div>''\<close>

section \<open>The document tree\<close>

text \<open>
  An element has a tag, its attributes in the order they were set, and its child nodes. A
  text node holds its text as it is written in markup. \<open>outerHTML\<close> and \<open>innerHTML\<close> give the
  markup of an element and of the child nodes of one.
\<close>

datatype dom = Text string | Elem string "(string \<times> string) list" "dom list"

fun attrHTML :: "string \<times> string \<Rightarrow> string" where
  \<open>attrHTML (k, v) = '' '' @ k @ ''="'' @ v @ ''"''\<close>

fun outerHTML :: "dom \<Rightarrow> string" where
  "outerHTML (Text s) = s"
| "outerHTML (Elem tag attrs kids) =
     ''<'' @ tag @ concat (map attrHTML attrs) @ ''>''
     @ concat (map outerHTML kids) @ ''</'' @ tag @ ''>''"

definition innerHTML :: "dom list \<Rightarrow> string" where
  "innerHTML kids = concat (map outerHTML kids)"

definition div_class :: "string \<Rightarrow> dom list \<Rightarrow> dom" where
  "div_class cls kids = Elem ''div'' [(''class'', cls)] kids"

text \<open>The child nodes that a text gives: none for the empty text, one text node otherwise.\<close>

definition textNodes :: "string \<Rightarrow> dom list" where
  "textNodes s = (if s = [] then [] else [Text s])"

text \<open>
  The element tree that corresponds to a tree node by node: one \<open>tree-node\<close> element per node,
  holding the label and, when a child is present, a \<open>tree-children\<close> block with one
  \<open>tree-child\<close> per child that is present. Its markup is that of \<open>buildTreeHTML\<close>
  (\<open>innerHTML_treeElements\<close>), and it is what that markup parses to when no label contains
  \<open><\<close> (\<open>parseHTML_buildTreeHTML\<close>).
\<close>

fun treeElements :: "TreeNode option \<Rightarrow> bool \<Rightarrow> dom list" where
  "treeElements None showCoercion = []"
| "treeElements (Some (TreeNode ty v on ti l r)) showCoercion =
     [div_class ''tree-node''
        (div_class (nodeClass (TreeNode ty v on ti l r) showCoercion)
                   (textNodes (displayValue (TreeNode ty v on ti l r) showCoercion))
         # (if l \<noteq> None \<or> r \<noteq> None
            then [div_class ''tree-children''
                    ((if l \<noteq> None then [div_class ''tree-child'' (treeElements l showCoercion)] else [])
                     @ (if r \<noteq> None then [div_class ''tree-child'' (treeElements r showCoercion)] else []))]
            else []))]"


section \<open>Assigning markup to \<open>innerHTML\<close>\<close>



text \<open>A tag being read: whether it is an end tag, its name and its attributes so far.\<close>

datatype tag = Tag bool string "(string \<times> string) list"



















section \<open>Connector lines (\<open>drawTreeLines\<close>)\<close>

text \<open>
  \<open>drawTreeLines\<close> is given on the child nodes of the container. An element is addressed by
  its path: the child indices that lead to it from the container.
  The rendered geometry is what the browser reports for the container and for each element in
  it; \<open>numberToString\<close> is the conversion \<open>setAttribute\<close> applies to a number. Coordinates are
  rational numbers: the rounding of floating point is not modelled.
\<close>

type_synonym path = "nat list"

record DOMRect =
  rect_left :: rat
  rect_top :: rat
  rect_width :: rat
  rect_bottom :: rat

record layout =
  containerRect :: DOMRect
  scrollWidth :: rat
  scrollHeight :: rat
  boundingClientRect :: "path \<Rightarrow> DOMRect"
  numberToString :: "rat \<Rightarrow> string"

record line =
  x1 :: rat
  y1 :: rat
  x2 :: rat
  y2 :: rat

fun hasClass :: "string \<Rightarrow> dom \<Rightarrow> bool" where
  "hasClass cls (Text s) = False"
| "hasClass cls (Elem tag attrs kids) =
     (case map_of attrs ''class'' of None \<Rightarrow> False | Some v \<Rightarrow> cls \<in> set (classList v))"

fun childNodes :: "dom \<Rightarrow> dom list" where
  "childNodes (Text s) = []"
| "childNodes (Elem tag attrs kids) = kids"

text \<open>All nodes below path \<open>p\<close>, in document order; \<open>i\<close> is the index of the first of \<open>kids\<close>.\<close>

fun descendants :: "path \<Rightarrow> nat \<Rightarrow> dom list \<Rightarrow> (path \<times> dom) list" where
  "descendants p i [] = []"
| "descendants p i (Text s # ds) = (p @ [i], Text s) # descendants p (Suc i) ds"
| "descendants p i (Elem tag attrs kids # ds) =
     (p @ [i], Elem tag attrs kids) # descendants (p @ [i]) 0 kids @ descendants p (Suc i) ds"

text \<open>\<open>container.querySelectorAll('.cls')\<close>.\<close>

definition querySelectorAll :: "string \<Rightarrow> dom list \<Rightarrow> (path \<times> dom) list" where
  "querySelectorAll cls container = filter (\<lambda>(q, e). hasClass cls e) (descendants [] 0 container)"

text \<open>\<open>e.querySelectorAll(':scope > .cls')\<close> and \<open>e.querySelector(':scope > .cls')\<close>.\<close>

definition scopeChildren :: "string \<Rightarrow> path \<times> dom \<Rightarrow> (path \<times> dom) list" where
  "scopeChildren cls e =
     filter (\<lambda>(q, k). hasClass cls k)
       (map (\<lambda>(i, k). (fst e @ [i], k)) (enumerate 0 (childNodes (snd e))))"

definition scopeChild :: "string \<Rightarrow> path \<times> dom \<Rightarrow> (path \<times> dom) option" where
  "scopeChild cls e = (case scopeChildren cls e of [] \<Rightarrow> None | k # ks \<Rightarrow> Some k)"

text \<open>\<open>childrenContainer.querySelectorAll(':scope > .tree-child > .tree-node > .tree-node-value')\<close>.\<close>

definition childLabels :: "path \<times> dom \<Rightarrow> (path \<times> dom) list" where
  "childLabels childrenContainer =
     concat (map (\<lambda>child. concat (map (scopeChildren ''tree-node-value'')
                                       (scopeChildren ''tree-node'' child)))
                 (scopeChildren ''tree-child'' childrenContainer))"

text \<open>
  The body of \<open>nodes.forEach\<close>: for one \<open>tree-node\<close> element, the pairs (label of the parent,
  label of a child) that get a line.
\<close>

definition nodeEdges :: "path \<times> dom \<Rightarrow> (path \<times> path) list" where
  "nodeEdges node =
     (case scopeChild ''tree-node-value'' node of
        None \<Rightarrow> []
      | Some parentValue \<Rightarrow>
          (case scopeChild ''tree-children'' node of
             None \<Rightarrow> []
           | Some childrenContainer \<Rightarrow>
               map (\<lambda>child. (fst parentValue, fst child)) (childLabels childrenContainer)))"

definition edgePairs :: "dom list \<Rightarrow> (path \<times> path) list" where
  "edgePairs container = concat (map nodeEdges (querySelectorAll ''tree-node'' container))"

text \<open>The line from the bottom centre of the parent's box to the top centre of the child's.\<close>

definition connector :: "layout \<Rightarrow> path \<times> path \<Rightarrow> line" where
  "connector g e =
     (let containerRect = containerRect g;
          parentRect = boundingClientRect g (fst e);
          parentX = rect_left parentRect + rect_width parentRect / 2 - rect_left containerRect;
          parentY = rect_bottom parentRect - rect_top containerRect;
          childRect = boundingClientRect g (snd e);
          childX = rect_left childRect + rect_width childRect / 2 - rect_left containerRect;
          childY = rect_top childRect - rect_top containerRect
      in \<lparr>x1 = parentX, y1 = parentY, x2 = childX, y2 = childY\<rparr>)"

definition computeEdges :: "layout \<Rightarrow> dom list \<Rightarrow> line list" where
  "computeEdges g container = map (connector g) (edgePairs container)"

definition lineElement :: "layout \<Rightarrow> line \<Rightarrow> dom" where
  "lineElement g l =
     Elem ''line'' [(''x1'', numberToString g (x1 l)), (''y1'', numberToString g (y1 l)),
                    (''x2'', numberToString g (x2 l)), (''y2'', numberToString g (y2 l))] []"

text \<open>
  \<open>container.querySelector('.cls')\<close> followed by \<open>remove()\<close>: the container without the first
  element of that class in document order, or \<open>None\<close> when there is none.
\<close>

fun removeFirst :: "string \<Rightarrow> dom list \<Rightarrow> dom list option" where
  "removeFirst cls [] = None"
| "removeFirst cls (Text s # ds) = map_option ((#) (Text s)) (removeFirst cls ds)"
| "removeFirst cls (Elem tag attrs kids # ds) =
     (if hasClass cls (Elem tag attrs kids) then Some ds
      else (case removeFirst cls kids of
              Some kids' \<Rightarrow> Some (Elem tag attrs kids' # ds)
            | None \<Rightarrow> map_option ((#) (Elem tag attrs kids)) (removeFirst cls ds)))"

text \<open>The \<open>svg\<close> element that \<open>drawTreeLines\<close> builds, with one \<open>line\<close> child per edge.\<close>

definition overlay :: "layout \<Rightarrow> dom list \<Rightarrow> dom" where
  "overlay g container =
     Elem ''svg'' [(''class'', ''tree-svg''),
                   (''width'', numberToString g (scrollWidth g)),
                   (''height'', numberToString g (scrollHeight g))]
          (map (lineElement g) (computeEdges g container))"

text \<open>
  \<open>drawTreeLines(container)\<close>, on the child nodes of the container: the old overlay goes, the
  lines are computed on what remains, and the new overlay becomes the first child.
\<close>

definition drawTreeLines :: "layout \<Rightarrow> dom list \<Rightarrow> dom list" where
  "drawTreeLines g container =
     (let container = (case removeFirst ''tree-svg'' container of
                         Some without \<Rightarrow> without
                       | None \<Rightarrow> container);
          svg = overlay g container
      in svg # container)"



section \<open>The page and its state\<close>

text \<open>
  A symbol table is a JSON object from identifier names to ids: its entries in the order of
  \<open>Object.keys\<close>, which for names that are not array indices is the order of insertion. The
  script does one thing with an id, which is to put it into a template literal: an id is kept
  as the string that this gives.
\<close>

type_synonym SymbolTable = "(string \<times> string) list"

record Token =
  token_type :: string
  original :: string

text \<open>
  A prompt of \<open>showTypeInputs\<close>: the \<open>select\<close> for a variable, whose id is \<open>type-\<close> followed by
  the name of the variable, with its two options, of which the browser keeps one selected,
  the first one at creation. This is what the markup of \<open>showTypeInputs\<close> gives for a name
  without \<open><\<close>, \<open>&\<close> and double quote in it; what it gives for another name is not described.
\<close>

datatype TypeOption = IntOption | FloatOption

fun optionValue :: "TypeOption \<Rightarrow> string" where
  "optionValue IntOption = ''int''"
| "optionValue FloatOption = ''float''"

record TypeSelect =
  variable :: string
  selected :: TypeOption

text \<open>
  The state of the page: the global \<open>currentSymbolTable\<close> and, of the elements the script
  holds, the properties it reads or writes, each with the value last assigned to it. For the
  two tree containers this is the markup assigned to \<open>innerHTML\<close>; the overlay that
  \<open>drawTreeLines\<close> adds to a container later is not part of the record.
\<close>

record state =
  codeInput_value :: string
  currentSymbolTable :: SymbolTable
  compileBtn_disabled :: bool
  typeTableSection_display :: string
  typeInputs :: "TypeSelect list"
  tokensOutput_innerHTML :: string
  symbolTableBody_innerHTML :: string
  syntaxTree_innerHTML :: string
  semanticTree_innerHTML :: string
  icgOutput_textContent :: string
  optimizedOutput_textContent :: string
  assemblyOutput_textContent :: string
  errorDisplay_textContent :: string
  errorDisplay_display :: string

text \<open>
  What the service answers, and what \<open>fetch\<close> and \<open>response.json()\<close> make of it. An answer
  without \<open>success\<close> counts as one with \<open>success: false\<close>; a successful answer carries the fields
  that the handler reads. The answer to an analysis has \<open>tokens\<close> and \<open>symbol_table\<close> at the top,
  the answer to a compilation has them inside \<open>lexical\<close>: the fields of the first are written
  \<open>lexical_tokens\<close> and \<open>lexical_symbol_table\<close> here, to keep the two apart.
\<close>

record response =
  success :: bool
  detail :: "string option"
  error :: "string option"

record lexical =
  tokens :: "Token list"
  symbol_table :: SymbolTable

record lexical_response = response +
  lexical_tokens :: "Token list"
  lexical_symbol_table :: SymbolTable

record compile_response = response +
  lexical :: lexical
  syntax_tree :: "TreeNode option"
  semantic_tree :: "TreeNode option"
  intermediate_code :: "string list"
  optimized_code :: "string list"
  assembly_code :: "string list"

datatype 'a fetched = Rejected string | Resolved 'a

text \<open>A value of the type table: the \<open>value\<close> of the element found, a string or \<open>undefined\<close>.\<close>

datatype jsvalue = JString string | JUndefined

text \<open>
  The requests sent to the service, with the fields of their JSON bodies. \<open>JSON.stringify\<close>
  leaves out the properties of an object whose value is \<open>undefined\<close>.
\<close>

datatype request =
  LexicalRequest string
| CompileRequest string "(string \<times> string) list"

fun stringify_entry :: "string \<times> jsvalue \<Rightarrow> (string \<times> string) list" where
  "stringify_entry (k, JString v) = [(k, v)]"
| "stringify_entry (k, JUndefined) = []"

definition stringify :: "(string \<times> jsvalue) list \<Rightarrow> (string \<times> string) list" where
  "stringify typeTable = concat (map stringify_entry typeTable)"

section \<open>Display functions\<close>

definition displayTokens :: "Token list \<Rightarrow> state \<Rightarrow> state" where
  \<open>displayTokens ts s =
     s\<lparr>tokensOutput_innerHTML :=
         concat (map (\<lambda>t. ''<span class="token '' @ token_type t @ ''">'' @ original t @ ''</span>'') ts)\<rparr>\<close>

definition displaySymbolTable :: "SymbolTable \<Rightarrow> state \<Rightarrow> state" where
  \<open>displaySymbolTable symbolTable s =
     s\<lparr>symbolTableBody_innerHTML :=
         concat (map (\<lambda>(name, id). ''<tr><td>'' @ name @ ''</td><td>'' @ id @ ''</td></tr>'')
                     symbolTable)\<rparr>\<close>

text \<open>
  \<open>displaySyntaxTree\<close> and \<open>displaySemanticTree\<close> assign the markup and schedule the call of
  \<open>drawTreeLines\<close> on the container. \<open>drawnContainer\<close> gives the child nodes of a container after
  that call, from the markup that was assigned to it.
\<close>

definition displaySyntaxTree :: "TreeNode option \<Rightarrow> state \<Rightarrow> state" where
  "displaySyntaxTree tree s = s\<lparr>syntaxTree_innerHTML := buildTreeHTML tree False\<rparr>"

definition displaySemanticTree :: "TreeNode option \<Rightarrow> state \<Rightarrow> state" where
  "displaySemanticTree tree s = s\<lparr>semanticTree_innerHTML := buildTreeHTML tree True\<rparr>"


text \<open>\<open>instructions.join('\n')\<close>.\<close>

fun join_lines :: "string list \<Rightarrow> string" where
  "join_lines [] = []"
| "join_lines [l] = l"
| "join_lines (l # m # ls) = l @ [CHR 0x0A] @ join_lines (m # ls)"

definition displayICG :: "string list \<Rightarrow> state \<Rightarrow> state" where
  "displayICG instructions s = s\<lparr>icgOutput_textContent := join_lines instructions\<rparr>"

definition displayOptimized :: "string list \<Rightarrow> state \<Rightarrow> state" where
  "displayOptimized instructions s = s\<lparr>optimizedOutput_textContent := join_lines instructions\<rparr>"

definition displayAssembly :: "string list \<Rightarrow> state \<Rightarrow> state" where
  "displayAssembly instructions s = s\<lparr>assemblyOutput_textContent := join_lines instructions\<rparr>"

section \<open>Utility functions\<close>

text \<open>The message is prefixed with U+274C (three bytes in UTF-8) and \<open>' Error: '\<close>.\<close>

definition showError :: "string \<Rightarrow> state \<Rightarrow> state" where
  "showError message s =
     s\<lparr>errorDisplay_textContent := [CHR 0xE2, CHR 0x9D, CHR 0x8C] @ '' Error: '' @ message,
       errorDisplay_display := ''block''\<rparr>"

definition hideError :: "state \<Rightarrow> state" where
  "hideError s = s\<lparr>errorDisplay_display := ''none''\<rparr>"

definition clearOutputs :: "state \<Rightarrow> state" where
  \<open>clearOutputs s =
     s\<lparr>tokensOutput_innerHTML :=
         ''<span style="color:#666;">Click "Analyze Code" to see tokens...</span>'',
       symbolTableBody_innerHTML := [],
       syntaxTree_innerHTML := ''<span style="color:#666;">Compile to see parse tree...</span>'',
       semanticTree_innerHTML :=
         ''<span style="color:#666;">Compile to see semantic tree...</span>'',
       icgOutput_textContent := ''Compile to see intermediate code...'',
       optimizedOutput_textContent := ''Compile to see optimized code...'',
       assemblyOutput_textContent := ''Compile to see assembly code...''\<rparr>\<close>

definition reset :: "state \<Rightarrow> state" where
  "reset s =
     hideError (clearOutputs
       (s\<lparr>codeInput_value := [],
          currentSymbolTable := [],
          typeTableSection_display := ''none'',
          typeInputs := [],
          compileBtn_disabled := True\<rparr>))"

text \<open>
  The displayed artifacts: tokens, symbol table, the two trees and the three code listings.
\<close>

definition artifacts ::
  "state \<Rightarrow> string \<times> string \<times> string \<times> string \<times> string \<times> string \<times> string" where
  "artifacts s =
     (tokensOutput_innerHTML s, symbolTableBody_innerHTML s,
      syntaxTree_innerHTML s, semanticTree_innerHTML s,
      icgOutput_textContent s, optimizedOutput_textContent s, assemblyOutput_textContent s)"

section \<open>Type prompts\<close>

text \<open>\<open>s.split(sep)[0]\<close>: the part of \<open>s\<close> before the first \<open>sep\<close>, all of \<open>s\<close> when there is none.\<close>

definition split_first :: "char \<Rightarrow> string \<Rightarrow> string" where
  "split_first sep s = takeWhile (\<lambda>c. c \<noteq> sep) s"

text \<open>
  The local variable \<open>inputVariables\<close> of \<open>showTypeInputs(symbolTable)\<close>, for the text \<open>input\<close>
  in the code input.
\<close>

definition inputVariables :: "SymbolTable \<Rightarrow> string \<Rightarrow> string list" where
  "inputVariables symbolTable input =
     (let variables = map fst symbolTable;
          code = trim input;
          assignedVar = trim (split_first CHR ''='' code)
      in filter (\<lambda>v. v \<noteq> assignedVar) variables)"

text \<open>
  The assigned variable in the words of the specification: the substring of the source text
  before the first \<open>=\<close>, trimmed.
\<close>

definition assignedVariable :: "string \<Rightarrow> string" where
  "assignedVariable sourceText = trim (takeWhile (\<lambda>c. c \<noteq> CHR ''='') sourceText)"

definition showTypeInputs :: "SymbolTable \<Rightarrow> state \<Rightarrow> state" where
  "showTypeInputs symbolTable s =
     (let names = inputVariables symbolTable (codeInput_value s)
      in if length names = 0
         then s\<lparr>typeTableSection_display := ''none''\<rparr>
         else s\<lparr>typeInputs := map (\<lambda>varName. \<lparr>variable = varName, selected = IntOption\<rparr>) names,
                typeTableSection_display := ''block''\<rparr>)"

text \<open>
  \<open>document.getElementById\<close>, for the ids that start with \<open>type-\<close>: it returns the first
  element with the id in document order. Two elements of the page itself have such an id,
  the prompt section and the container of the prompts (which the script fetches under these
  ids at its start); the container holds the selects, so it comes before each of them, and
  so does the section around it. Neither of the two is a form control: reading \<open>value\<close> from
  them gives \<open>undefined\<close>.
\<close>

datatype element = TypeTableSection | TypeInputs | Select TypeSelect

definition getElementById :: "state \<Rightarrow> string \<Rightarrow> element option" where
  "getElementById s i =
     (if i = ''type-table-section'' then Some TypeTableSection
      else if i = ''type-inputs'' then Some TypeInputs
      else map_option Select (find (\<lambda>w. ''type-'' @ variable w = i) (typeInputs s)))"

fun elementValue :: "element \<Rightarrow> jsvalue" where
  "elementValue (Select w) = JString (optionValue (selected w))"
| "elementValue TypeTableSection = JUndefined"
| "elementValue TypeInputs = JUndefined"

text \<open>
  \<open>getTypeTable()\<close>: the loop over \<open>Object.keys(currentSymbolTable)\<close>, with the object being built
  as accumulator.
\<close>

fun collectTypes :: "state \<Rightarrow> string list \<Rightarrow> (string \<times> jsvalue) list \<Rightarrow> (string \<times> jsvalue) list" where
  "collectTypes s [] typeTable = typeTable"
| "collectTypes s (varName # rest) typeTable =
     (case getElementById s (''type-'' @ varName) of
        Some select \<Rightarrow> collectTypes s rest (AList.update varName (elementValue select) typeTable)
      | None \<Rightarrow> collectTypes s rest typeTable)"

definition getTypeTable :: "state \<Rightarrow> (string \<times> jsvalue) list" where
  "getTypeTable s = collectTypes s (map fst (currentSymbolTable s)) []"

section \<open>The two phases\<close>

text \<open>\<open>data.detail || data.error || fallback\<close>.\<close>

definition failureMessage :: "'a response_scheme \<Rightarrow> string \<Rightarrow> string" where
  "failureMessage data fallback =
     (case detail data of
        Some d \<Rightarrow> if truthy (Some d) then d
                  else (case error data of
                          Some e \<Rightarrow> if truthy (Some e) then e else fallback
                        | None \<Rightarrow> fallback)
      | None \<Rightarrow> (case error data of
                   Some e \<Rightarrow> if truthy (Some e) then e else fallback
                 | None \<Rightarrow> fallback))"

text \<open>
  \<open>analyzeLexical()\<close>, run from the click to the end of the handler with no other handler in
  between, and with the outcome of the request as argument; the result is the new state and
  the requests sent.
\<close>

definition analyzeLexical :: "lexical_response fetched \<Rightarrow> state \<Rightarrow> state \<times> request list" where
  "analyzeLexical outcome s =
     (let code = trim (codeInput_value s)
      in if code = [] then (showError ''Please enter some code to analyze.'' s, [])
         else
           (let s = clearOutputs (hideError s);
                sent = [LexicalRequest code]
            in case outcome of
                 Rejected message \<Rightarrow> (showError (''Error connecting to API: '' @ message) s, sent)
               | Resolved data \<Rightarrow>
                   if \<not> success data
                   then (showError (failureMessage data ''Analysis failed'') s, sent)
                   else
                     (let s = displayTokens (lexical_tokens data) s;
                          s = displaySymbolTable (lexical_symbol_table data) s;
                          s = s\<lparr>currentSymbolTable := lexical_symbol_table data\<rparr>;
                          s = showTypeInputs (lexical_symbol_table data) s;
                          s = s\<lparr>compileBtn_disabled := False\<rparr>
                      in (s, sent))))"

text \<open>The request did not succeed: it was rejected, or the answer has \<open>success: false\<close>.\<close>

definition failed :: "lexical_response fetched \<Rightarrow> bool" where
  "failed outcome = (case outcome of Rejected message \<Rightarrow> True | Resolved data \<Rightarrow> \<not> success data)"

text \<open>\<open>compile()\<close>, in the same way.\<close>

definition compile :: "compile_response fetched \<Rightarrow> state \<Rightarrow> state \<times> request list" where
  "compile outcome s =
     (let code = trim (codeInput_value s);
          typeTable = getTypeTable s;
          s = hideError s;
          sent = [CompileRequest code (stringify typeTable)]
      in case outcome of
           Rejected message \<Rightarrow> (showError (''Error connecting to API: '' @ message) s, sent)
         | Resolved data \<Rightarrow>
             if \<not> success data
             then (showError (failureMessage data ''Compilation failed'') s, sent)
             else
               (let s = displayTokens (tokens (lexical data)) s;
                    s = displaySymbolTable (symbol_table (lexical data)) s;
                    s = displaySyntaxTree (syntax_tree data) s;
                    s = displaySemanticTree (semantic_tree data) s;
                    s = displayICG (intermediate_code data) s;
                    s = displayOptimized (optimized_code data) s;
                    s = displayAssembly (assembly_code data) s
                in (s, sent)))"

text \<open>
  A click on the compile button: the listener is \<open>compile\<close>, and a disabled button dispatches
  no click.
\<close>

definition clickCompile :: "compile_response fetched \<Rightarrow> state \<Rightarrow> state \<times> request list" where
  "clickCompile outcome s = (if compileBtn_disabled s then (s, []) else compile outcome s)"

text \<open>
  The page once the script has run (\<open>currentSymbolTable = {}\<close>, then \<open>clearOutputs()\<close>), for a
  page whose markup starts with an empty input, a disabled compile button, a hidden and empty
  prompt section and no error shown.
\<close>

definition loaded :: state where
  "loaded =
     clearOutputs
       \<lparr>codeInput_value = [], currentSymbolTable = [], compileBtn_disabled = True,
        typeTableSection_display = ''none'', typeInputs = [],
        tokensOutput_innerHTML = [], symbolTableBody_innerHTML = [],
        syntaxTree_innerHTML = [], semanticTree_innerHTML = [],
        icgOutput_textContent = [], optimizedOutput_textContent = [],
        assemblyOutput_textContent = [],
        errorDisplay_textContent = [], errorDisplay_display = ''none''\<rparr>"

section \<open>Example runs\<close>

text \<open>A successful and a refused analysis, as the service answers them.\<close>

definition analysis :: "Token list \<Rightarrow> SymbolTable \<Rightarrow> lexical_response" where
  "analysis ts symbolTable =
     \<lparr>success = True, detail = None, error = None,
      lexical_tokens = ts, lexical_symbol_table = symbolTable\<rparr>"

definition refusal :: "string \<Rightarrow> lexical_response" where
  "refusal message =
     \<lparr>success = False, detail = Some message, error = None,
      lexical_tokens = [], lexical_symbol_table = []\<rparr>"

text \<open>The user replaces the text of the code input.\<close>

definition typed :: "string \<Rightarrow> state \<Rightarrow> state" where
  "typed text s = s\<lparr>codeInput_value := text\<rparr>"

text \<open>
  Three runs: \<open>x = a + b\<close> analysed on the loaded page; after it, \<open>a = 5\<close> analysed, which has
  no input variable; and \<open>y = inputs + 1\<close> analysed on the loaded page.
\<close>

definition sum_analysed :: state where
  "sum_analysed =
     fst (analyzeLexical
            (Resolved (analysis [\<lparr>token_type = ''ID'', original = ''x''\<rparr>]
                                [(''x'', ''0''), (''a'', ''1''), (''b'', ''2'')]))
            (typed ''x = a + b'' loaded))"

definition constant_analysed :: state where
  "constant_analysed =
     fst (analyzeLexical (Resolved (analysis [] [(''a'', ''0'')])) (typed ''a = 5'' sum_analysed))"

definition inputs_analysed :: state where
  "inputs_analysed =
     fst (analyzeLexical (Resolved (analysis [] [(''y'', ''0''), (''inputs'', ''1'')]))
            (typed ''y = inputs + 1'' loaded))"





section \<open>Properties of the layout\<close>

lemma innerHTML_treeElements:
  "innerHTML (treeElements node showCoercion) = buildTreeHTML node showCoercion"
  by (induction node showCoercion rule: treeElements.induct)
     (simp_all add: innerHTML_def div_class_def textNodes_def)


text \<open>
  C5. The coercion marker (the \<open>coerced\<close> class and the suffix \<open>' \<rightarrow>float'\<close>) is appended to a
  node's label if and only if \<open>showCoercion\<close> is true and \<open>type_info\<close> is exactly
  \<open>'int to float'\<close>: class and text are those of the call without annotation, extended by the
  marker under that condition and unchanged otherwise; the label carries the \<open>coerced\<close> class,
  and its text is the unannotated text followed by the suffix, exactly under that condition.
\<close>

theorem coercion_marker_iff:
  "nodeClass node showCoercion =
     nodeClass node False
     @ (if showCoercion \<and> type_info node = Some ''int to float'' then '' coerced'' else [])
   \<and> displayValue node showCoercion =
     displayValue node False
     @ (if showCoercion \<and> type_info node = Some ''int to float'' then coercion_suffix else [])
   \<and> (''coerced'' \<in> set (classList (nodeClass node showCoercion)))
       = (showCoercion \<and> type_info node = Some ''int to float'')
   \<and> (displayValue node showCoercion = displayValue node False @ coercion_suffix)
       = (showCoercion \<and> type_info node = Some ''int to float'')"
  by (simp add: nodeClass_def displayValue_def styled_def classList_def is_ascii_whitespace_def
        coercion_suffix_def Let_def split: option.split)

text \<open>
  C6. The value chosen for display is \<open>original_name\<close> when \<open>node_type\<close> is \<open>ID\<close> and
  \<open>original_name\<close> is present and not empty, and the \<open>value\<close> field in every other case; with
  annotation on, the coercion suffix of C5 follows the chosen value.
\<close>

theorem display_value_selection:
  "displayValue node False =
     (if node_type node = ''ID'' \<and> original_name node \<noteq> None \<and> original_name node \<noteq> Some []
      then the (original_name node) else node_value node)
   \<and> displayValue node showCoercion =
     (if node_type node = ''ID'' \<and> original_name node \<noteq> None \<and> original_name node \<noteq> Some []
      then the (original_name node) else node_value node)
     @ (if showCoercion \<and> type_info node = Some ''int to float'' then coercion_suffix else [])"
  by (simp add: displayValue_def styled_def Let_def split: option.split)

lemma classList_literals:
  "classList ''tree-node'' = [''tree-node'']"
  "classList ''tree-children'' = [''tree-children'']"
  "classList ''tree-child'' = [''tree-child'']"
  "classList ''tree-svg'' = [''tree-svg'']"
  by (simp_all add: classList_def is_ascii_whitespace_def)

lemma classList_nodeClass:
  "set (classList (nodeClass n c)) \<subseteq> {''tree-node-value'', ''operator'', ''id'', ''number'', ''coerced''}"
  "''tree-node-value'' \<in> set (classList (nodeClass n c))"
  by (simp_all add: nodeClass_def styled_def classList_def is_ascii_whitespace_def Let_def split: option.split)

lemma hasClass_div_class:
  "hasClass cls (div_class c ks) = (cls \<in> set (classList c))"
  by (simp add: div_class_def)

lemma hasClass_blocks [simp]:
  "hasClass cls (div_class ''tree-node'' ks) = (cls = ''tree-node'')"
  "hasClass cls (div_class ''tree-children'' ks) = (cls = ''tree-children'')"
  "hasClass cls (div_class ''tree-child'' ks) = (cls = ''tree-child'')"
  by (auto simp add: hasClass_div_class classList_literals)

lemma hasClass_label [simp]:
  "hasClass ''tree-node-value'' (div_class (nodeClass n c) ks)"
  "\<not> hasClass ''tree-node'' (div_class (nodeClass n c) ks)"
  "\<not> hasClass ''tree-children'' (div_class (nodeClass n c) ks)"
  "\<not> hasClass ''tree-child'' (div_class (nodeClass n c) ks)"
  "\<not> hasClass ''tree-svg'' (div_class (nodeClass n c) ks)"
  using classList_nodeClass[of n c] by (auto simp add: hasClass_div_class)

lemma childNodes_div_class [simp]: "childNodes (div_class c ks) = ks"
  by (simp add: div_class_def)

lemma descendants_textNodes [simp]:
  "filter (\<lambda>(q, e). hasClass cls e) (descendants p i (textNodes s)) = []"
  by (simp add: textNodes_def)

lemma removeFirst_textNodes [simp]: "removeFirst cls (textNodes s) = None"
  by (simp add: textNodes_def)

lemma descendants_div_class [simp]:
  "descendants p i (div_class c ks # ds) =
     (p @ [i], div_class c ks) # descendants (p @ [i]) 0 ks @ descendants p (Suc i) ds"
  by (simp add: div_class_def)


lemma filter_tree_node_cons:
  "filter (\<lambda>(q, e). hasClass ''tree-node'' e) ((q, div_class ''tree-node'' ks) # xs)
     = (q, div_class ''tree-node'' ks) # filter (\<lambda>(q, e). hasClass ''tree-node'' e) xs"
  by simp









lemma removeFirst_div_class:
  "removeFirst cls (div_class c ks # ds) =
     (if hasClass cls (div_class c ks) then Some ds
      else (case removeFirst cls ks of
              Some ks' \<Rightarrow> Some (div_class c ks' # ds)
            | None \<Rightarrow> map_option ((#) (div_class c ks)) (removeFirst cls ds)))"
  by (simp add: div_class_def split: option.split)

lemma removeFirst_treeElements: "removeFirst ''tree-svg'' (treeElements node sc) = None"
  by (induction node sc rule: treeElements.induct) (auto simp add: removeFirst_div_class)

lemma removeFirst_overlay:
  "removeFirst ''tree-svg'' (Elem tag ((''class'', ''tree-svg'') # attrs) kids # container) = Some container"
  by (simp add: classList_literals)

lemma drawTreeLines_twice: "drawTreeLines g (drawTreeLines g container) = drawTreeLines g container"
  by (simp add: drawTreeLines_def overlay_def Let_def removeFirst_overlay del: removeFirst.simps)

lemma drawTreeLines_repeated: "(drawTreeLines g ^^ Suc n) container = drawTreeLines g container"
  by (induction n) (simp_all add: drawTreeLines_twice)

lemma drawTreeLines_treeElements:
  "drawTreeLines g (treeElements tree sc) = overlay g (treeElements tree sc) # treeElements tree sc"
  by (simp add: drawTreeLines_def Let_def removeFirst_treeElements)






















text \<open>
  C8. Recomputing the connectors of an unchanged rendering is idempotent: for every
  container, a second call of \<open>drawTreeLines\<close>, and any number of further calls, leaves the
  container as the first call left it, so the edges are the same and the overlay is replaced,
  not added to. After any number of calls on the element tree of a tree (\<open>treeElements\<close>) the
  container holds the one overlay with the edges of that tree, followed by the tree: taking
  the overlay away leaves the tree, which has none.
\<close>

theorem drawTreeLines_idempotent:
  "drawTreeLines g (drawTreeLines g container) = drawTreeLines g container
   \<and> (drawTreeLines g ^^ Suc n) container = drawTreeLines g container
   \<and> (drawTreeLines g ^^ Suc n) (treeElements tree sc)
       = overlay g (treeElements tree sc) # treeElements tree sc
   \<and> childNodes (overlay g (treeElements tree sc))
       = map (lineElement g) (computeEdges g (treeElements tree sc))
   \<and> removeFirst ''tree-svg'' ((drawTreeLines g ^^ Suc n) (treeElements tree sc))
       = Some (treeElements tree sc)
   \<and> removeFirst ''tree-svg'' (treeElements tree sc) = None"
proof -
  have r: "(drawTreeLines g ^^ Suc n) (treeElements tree sc)
       = overlay g (treeElements tree sc) # treeElements tree sc"
    by (simp only: drawTreeLines_repeated drawTreeLines_treeElements)
  have k: "childNodes (overlay g (treeElements tree sc))
       = map (lineElement g) (computeEdges g (treeElements tree sc))"
    by (simp add: overlay_def)
  have one: "removeFirst ''tree-svg'' ((drawTreeLines g ^^ Suc n) (treeElements tree sc))
       = Some (treeElements tree sc)"
    by (simp only: r) (simp add: overlay_def removeFirst_overlay del: removeFirst.simps)
  show ?thesis
    using r k one drawTreeLines_twice[of g container] drawTreeLines_repeated[of n g container]
      removeFirst_treeElements[of tree sc]
    by (simp only: simp_thms)
qed

section \<open>Properties of the type prompts\<close>

lemma strip_unchanged:
  "find (\<lambda>w. w \<noteq> [] \<and> prefix w s) ws = None \<Longrightarrow> strip ws s = s"
  by (subst strip.simps) simp

lemma strip_step:
  "find (\<lambda>w. w \<noteq> [] \<and> prefix w s) ws = Some w \<Longrightarrow> strip ws s = strip ws (drop (length w) s)"
  by (subst strip.simps) simp

lemma suffix_strip: "suffix (strip ws s) s"
proof (induction ws s rule: strip.induct)
  case (1 ws s)
  show ?case
  proof (cases "find (\<lambda>w. w \<noteq> [] \<and> prefix w s) ws")
    case None
    then show ?thesis by (simp add: strip_unchanged)
  next
    case (Some w)
    have "suffix (strip ws (drop (length w) s)) (drop (length w) s)"
      using 1 Some by simp
    then have "suffix (strip ws (drop (length w) s)) s"
      using suffix_drop suffix_order.trans by blast
    then show ?thesis by (simp add: strip_step[OF Some])
  qed
qed

lemma strip_done: "find (\<lambda>w. w \<noteq> [] \<and> prefix w (strip ws s)) ws = None"
proof (induction ws s rule: strip.induct)
  case (1 ws s)
  show ?case
  proof (cases "find (\<lambda>w. w \<noteq> [] \<and> prefix w s) ws")
    case None
    then show ?thesis by (simp add: strip_unchanged)
  next
    case (Some w)
    then show ?thesis using 1 by (simp add: strip_step[OF Some])
  qed
qed

lemma strip_idem: "strip ws (strip ws s) = strip ws s"
  by (rule strip_unchanged) (rule strip_done)

lemma strip_stop:
  assumes x: "\<forall>w\<in>set ws. x \<notin> set w"
  shows "strip ws (t @ x # r) = strip ws t @ x # r"
  using x
proof (induction ws t rule: strip.induct)
  case (1 ws t)
  have same: "(w \<noteq> [] \<and> prefix w (t @ x # r)) = (w \<noteq> [] \<and> prefix w t)" if "w \<in> set ws" for w
  proof -
    from that "1.prems" have "x \<notin> set w" by simp
    then show ?thesis by (auto simp add: prefix_append prefix_Cons)
  qed
  then have f: "find (\<lambda>w. w \<noteq> [] \<and> prefix w (t @ x # r)) ws = find (\<lambda>w. w \<noteq> [] \<and> prefix w t) ws"
    by (rule find_cong[OF refl])
  show ?case
  proof (cases "find (\<lambda>w. w \<noteq> [] \<and> prefix w t) ws")
    case None
    then show ?thesis using f by (simp add: strip_unchanged)
  next
    case (Some w)
    then have "prefix w t" by (auto simp add: find_Some_iff)
    then have d: "drop (length w) (t @ x # r) = drop (length w) t @ x # r"
      by (auto simp add: prefix_def)
    have "strip ws (drop (length w) t @ x # r) = strip ws (drop (length w) t) @ x # r"
      by (rule "1.IH"[OF Some "1.prems"])
    then show ?thesis using f Some d by (simp add: strip_step)
  qed
qed

lemma equals_sign_not_white_space:
  "\<forall>w\<in>set white_space. CHR ''='' \<notin> set w"
  "\<forall>w\<in>set (map rev white_space). CHR ''='' \<notin> set w"
  by (simp_all add: white_space_def)

lemma prefix_trimEnd: "prefix (trimEnd s) s"
  using suffix_strip[of "map rev white_space" "rev s"]
  by (simp add: trimEnd_def suffix_to_prefix)

lemma set_trimStart: "set (trimStart s) \<subseteq> set s"
  using suffix_strip[of white_space s] by (simp add: trimStart_def set_mono_suffix)

lemma set_trim: "set (trim s) \<subseteq> set s"
  using set_mono_prefix[OF prefix_trimEnd[of "trimStart s"]] set_trimStart[of s]
  by (auto simp add: trim_def)

lemma trimStart_trimEnd: "trimStart (trimEnd (trimStart s)) = trimEnd (trimStart s)"
proof -
  have "find (\<lambda>w. w \<noteq> [] \<and> prefix w (trimStart s)) white_space = None"
    by (simp only: trimStart_def strip_done)
  then have "find (\<lambda>w. w \<noteq> [] \<and> prefix w (trimEnd (trimStart s))) white_space = None"
    using prefix_trimEnd[of "trimStart s"] prefix_order.trans
    by (fastforce simp add: find_None_iff)
  then show ?thesis
    by (subst trimStart_def) (rule strip_unchanged)
qed

lemma trimEnd_idem: "trimEnd (trimEnd s) = trimEnd s"
  by (simp add: trimEnd_def strip_idem)

lemma trimStart_idem: "trimStart (trimStart s) = trimStart s"
  by (simp add: trimStart_def strip_idem)

lemma trim_idem: "trim (trim s) = trim s"
  by (simp add: trim_def trimStart_trimEnd trimEnd_idem)

lemma trim_around_equals_sign:
  "trim (u @ CHR ''='' # r) = trimStart u @ CHR ''='' # trimEnd r"
proof -
  have "trimStart (u @ CHR ''='' # r) = trimStart u @ CHR ''='' # r"
    unfolding trimStart_def by (rule strip_stop) (rule equals_sign_not_white_space)
  moreover have "trimEnd (trimStart u @ CHR ''='' # r) = trimStart u @ CHR ''='' # trimEnd r"
    using strip_stop[OF equals_sign_not_white_space(2), of "rev r" "rev (trimStart u)"]
    by (simp add: trimEnd_def)
  ultimately show ?thesis by (simp add: trim_def)
qed

lemma assignedVar_refines:
  "trim (split_first CHR ''='' (trim s)) = assignedVariable s"
proof (cases "CHR ''='' \<in> set s")
  case False
  with set_trim[of s] have "CHR ''='' \<notin> set (trim s)" by auto
  then have "takeWhile (\<lambda>c. c \<noteq> CHR ''='') (trim s) = trim s"
    by auto
  moreover from False have "takeWhile (\<lambda>c. c \<noteq> CHR ''='') s = s"
    by auto
  ultimately show ?thesis
    by (simp only: split_first_def assignedVariable_def trim_idem)
next
  case True
  then obtain u r where s: "s = u @ CHR ''='' # r" and u: "CHR ''='' \<notin> set u"
    using split_list_first[of "CHR ''=''" s] by auto
  from u set_trimStart[of u] have tu: "CHR ''='' \<notin> set (trimStart u)" by auto
  have "takeWhile (\<lambda>c. c \<noteq> CHR ''='') (trim s) = trimStart u"
    using tu by (auto simp add: s trim_around_equals_sign takeWhile_tail)
  moreover have "takeWhile (\<lambda>c. c \<noteq> CHR ''='') s = u"
    using u by (auto simp add: s takeWhile_tail)
  ultimately show ?thesis
    by (simp add: split_first_def assignedVariable_def trim_def trimStart_idem)
qed

lemma strip_decompose: "\<exists>pre. set pre \<subseteq> set ws \<and> s = concat pre @ strip ws s"
proof (induction ws s rule: strip.induct)
  case (1 ws s)
  show ?case
  proof (cases "find (\<lambda>w. w \<noteq> [] \<and> prefix w s) ws")
    case None
    then have "set [] \<subseteq> set ws \<and> s = concat [] @ strip ws s"
      by (simp add: strip_unchanged)
    then show ?thesis by blast
  next
    case (Some w)
    then have w: "w \<in> set ws" "prefix w s"
      by (auto simp add: find_Some_iff)
    from "1.IH"[OF Some] obtain pre where
      pre: "set pre \<subseteq> set ws" "drop (length w) s = concat pre @ strip ws (drop (length w) s)"
      by blast
    from w(2) have "s = w @ drop (length w) s"
      by (auto simp add: prefix_def)
    with pre(2) have "s = concat (w # pre) @ strip ws s"
      by (simp add: strip_step[OF Some])
    moreover from w(1) pre(1) have "set (w # pre) \<subseteq> set ws" by simp
    ultimately show ?thesis by blast
  qed
qed

lemma trim_decompose:
  "\<exists>lead trail. set lead \<subseteq> set white_space \<and> set trail \<subseteq> set white_space
     \<and> s = concat lead @ trim s @ concat trail"
proof -
  obtain lead where lead: "set lead \<subseteq> set white_space" "s = concat lead @ trimStart s"
    using strip_decompose[of white_space s] by (auto simp add: trimStart_def)
  obtain pre where pre: "set pre \<subseteq> set (map rev white_space)"
    "rev (trimStart s) = concat pre @ strip (map rev white_space) (rev (trimStart s))"
    using strip_decompose[of "map rev white_space" "rev (trimStart s)"] by blast
  from pre(2) have "rev (rev (trimStart s))
      = rev (strip (map rev white_space) (rev (trimStart s))) @ rev (concat pre)"
    by (metis rev_append)
  then have t: "trimStart s = trim s @ concat (map rev (rev pre))"
    by (simp add: trim_def trimEnd_def rev_concat)
  from pre(1) have "set (map rev (rev pre)) \<subseteq> set white_space"
    by (auto simp add: image_iff)
  with lead t show ?thesis by metis
qed

lemma trim_clean:
  "list_all (\<lambda>w. \<not> prefix w (trim s) \<and> \<not> suffix w (trim s)) white_space"
proof -
  have ne: "\<forall>w\<in>set white_space. w \<noteq> []"
    by (simp add: white_space_def)
  have "find (\<lambda>w. w \<noteq> [] \<and> prefix w (trimStart (trim s))) white_space = None"
    by (simp only: trimStart_def strip_done)
  then have p: "\<forall>w\<in>set white_space. \<not> prefix w (trim s)"
    using ne by (simp add: trim_def trimStart_trimEnd find_None_iff)
  have "find (\<lambda>w. w \<noteq> [] \<and> prefix w (rev (trim s))) (map rev white_space) = None"
    by (simp add: trim_def trimEnd_def strip_done)
  then have "\<forall>w\<in>set white_space. \<not> suffix w (trim s)"
    using ne by (simp add: find_None_iff suffix_to_prefix)
  with p show ?thesis by (simp add: list_all_iff)
qed


lemma trim_literals:
  "trim [] = []"
  "trim ''x = a + b'' = ''x = a + b''"
  "trim ''a = 5'' = ''a = 5''"
  "trim ''y = inputs + 1'' = ''y = inputs + 1''"
  "trim ''x '' = ''x''" "trim ''a '' = ''a''" "trim ''y '' = ''y''"
  by (simp_all add: trim_def trimStart_def trimEnd_def strip.simps white_space_def)

text \<open>
  C4. The names that need a type are the names of the symbol table, in its iteration order,
  without the assigned variable, which is the text of the source before the first \<open>=\<close>,
  trimmed: the assigned variable is not among them, every other name is, and their order is
  that of the table. For \<open>x = a + b\<close> and the table \<open>{x: 0, a: 1, b: 2}\<close> they are \<open>a\<close>, \<open>b\<close>.
  Trimmed means: the text before the first \<open>=\<close> is the assigned variable with white space
  and line terminator characters before and after it, and the assigned variable has none of
  these at either end. So a no-break space (U+00A0) goes off the front of \<open>x = a\<close>, and an
  ideographic space (U+3000), a tab and a line separator (U+2028) go off the two ends of \<open>y\<close>.
\<close>

theorem requiredInputs_without_assigned:
  "inputVariables symbolTable sourceText
     = filter (\<lambda>v. v \<noteq> assignedVariable sourceText) (map fst symbolTable)
   \<and> assignedVariable sourceText \<notin> set (inputVariables symbolTable sourceText)
   \<and> set (inputVariables symbolTable sourceText)
       = set (map fst symbolTable) - {assignedVariable sourceText}
   \<and> subseq (inputVariables symbolTable sourceText) (map fst symbolTable)
   \<and> (\<exists>lead trail. set lead \<subseteq> set white_space \<and> set trail \<subseteq> set white_space
         \<and> takeWhile (\<lambda>c. c \<noteq> CHR ''='') sourceText
             = concat lead @ assignedVariable sourceText @ concat trail)
   \<and> list_all (\<lambda>w. \<not> prefix w (assignedVariable sourceText)
                     \<and> \<not> suffix w (assignedVariable sourceText)) white_space
   \<and> assignedVariable ''x = a + b'' = ''x''
   \<and> inputVariables [(''x'', ''0''), (''a'', ''1''), (''b'', ''2'')] ''x = a + b'' = [''a'', ''b'']
   \<and> inputVariables [(''x'', ''0''), (''a'', ''1'')] ([CHR 0xC2, CHR 0xA0] @ ''x = a'') = [''a'']
   \<and> assignedVariable
         ([CHR 0xE3, CHR 0x80, CHR 0x80, CHR 0x09] @ ''y'' @ [CHR 0xE2, CHR 0x80, CHR 0xA8] @ ''= 1'')
       = ''y''"
proof -
  have f: "inputVariables st src = filter (\<lambda>v. v \<noteq> assignedVariable src) (map fst st)" for st src
    by (simp add: inputVariables_def Let_def assignedVar_refines)
  have x: "assignedVariable ''x = a + b'' = ''x''"
    "assignedVariable ([CHR 0xC2, CHR 0xA0] @ ''x = a'') = ''x''"
    "assignedVariable
         ([CHR 0xE3, CHR 0x80, CHR 0x80, CHR 0x09] @ ''y'' @ [CHR 0xE2, CHR 0x80, CHR 0xA8] @ ''= 1'')
       = ''y''"
    by (simp_all add: assignedVariable_def trim_def trimStart_def trimEnd_def strip.simps
          white_space_def)
  have w: "\<exists>lead trail. set lead \<subseteq> set white_space \<and> set trail \<subseteq> set white_space
         \<and> takeWhile (\<lambda>c. c \<noteq> CHR ''='') sourceText
             = concat lead @ assignedVariable sourceText @ concat trail"
    unfolding assignedVariable_def by (rule trim_decompose)
  have c: "list_all (\<lambda>w. \<not> prefix w (assignedVariable sourceText)
                     \<and> \<not> suffix w (assignedVariable sourceText)) white_space"
    unfolding assignedVariable_def by (rule trim_clean)
  have rest: "inputVariables symbolTable sourceText
     = filter (\<lambda>v. v \<noteq> assignedVariable sourceText) (map fst symbolTable)
   \<and> assignedVariable sourceText \<notin> set (inputVariables symbolTable sourceText)
   \<and> set (inputVariables symbolTable sourceText)
       = set (map fst symbolTable) - {assignedVariable sourceText}
   \<and> subseq (inputVariables symbolTable sourceText) (map fst symbolTable)
   \<and> inputVariables [(''x'', ''0''), (''a'', ''1''), (''b'', ''2'')] ''x = a + b'' = [''a'', ''b'']
   \<and> inputVariables [(''x'', ''0''), (''a'', ''1'')] ([CHR 0xC2, CHR 0xA0] @ ''x = a'') = [''a'']"
    by (simp only: f x) auto
  from w c rest x(1) x(3) show ?thesis
    by (elim conjE, intro conjI) assumption+
qed

section \<open>Properties of the controller\<close>

lemma getTypeTable_reset: "getTypeTable (reset s) = []"
  by (simp add: getTypeTable_def reset_def hideError_def clearOutputs_def)

text \<open>
  C9. From every state, \<open>reset\<close> empties the code input, the stored symbol table and the type
  prompts, hides the prompt section and the error, disables the compile button and puts every
  displayed artifact back to its placeholder: the page is the loaded page again (what is left
  of an earlier error is its hidden text), the type table is empty and a click on the compile
  button does nothing.
\<close>

theorem reset_to_idle:
  \<open>codeInput_value (reset s) = []
   \<and> currentSymbolTable (reset s) = []
   \<and> typeInputs (reset s) = []
   \<and> typeTableSection_display (reset s) = ''none''
   \<and> compileBtn_disabled (reset s)
   \<and> errorDisplay_display (reset s) = ''none''
   \<and> artifacts (reset s) =
       (''<span style="color:#666;">Click "Analyze Code" to see tokens...</span>'',
        [],
        ''<span style="color:#666;">Compile to see parse tree...</span>'',
        ''<span style="color:#666;">Compile to see semantic tree...</span>'',
        ''Compile to see intermediate code...'',
        ''Compile to see optimized code...'',
        ''Compile to see assembly code...'')
   \<and> getTypeTable (reset s) = []
   \<and> clickCompile outcome (reset s) = (reset s, [])
   \<and> reset s = loaded\<lparr>errorDisplay_textContent := errorDisplay_textContent s\<rparr>\<close>
  by (simp add: getTypeTable_reset clickCompile_def)
     (simp add: reset_def hideError_def clearOutputs_def artifacts_def loaded_def)

text \<open>
  C1, as the code has it. \<open>compile\<close> has no guard of its own: in every state, the idle one
  included, it sends exactly one compile request, with the trimmed text of the code input and
  the collected type table (after a reset: the empty text and the empty table). What keeps a
  compile from an idle page is the compile button: \<open>reset\<close> disables it, a click on it then
  sends nothing, and only an analysis that succeeds enables it.
\<close>

theorem compile_sends_in_every_state:
  "snd (compile outcome s)
     = [CompileRequest (trim (codeInput_value s)) (stringify (getTypeTable s))]
   \<and> snd (compile outcome (reset s)) = [CompileRequest [] []]
   \<and> compileBtn_disabled (reset s)
   \<and> clickCompile outcome (reset s) = (reset s, [])
   \<and> compileBtn_disabled (fst (analyzeLexical answer s))
       = (if trim (codeInput_value s) \<noteq> []
             \<and> (case answer of Rejected message \<Rightarrow> False | Resolved data \<Rightarrow> success data)
          then False else compileBtn_disabled s)"
proof -
  have sent: "snd (compile outcome s')
     = [CompileRequest (trim (codeInput_value s')) (stringify (getTypeTable s'))]" for s'
    by (simp add: compile_def Let_def split: fetched.split)
  have idle: "snd (compile outcome (reset s)) = [CompileRequest [] []]"
    by (simp only: sent getTypeTable_reset)
       (simp add: reset_def hideError_def clearOutputs_def trim_literals stringify_def)
  have gate: "compileBtn_disabled (reset s)" "clickCompile outcome (reset s) = (reset s, [])"
    by (simp_all add: clickCompile_def reset_def hideError_def clearOutputs_def)
  have enable: "compileBtn_disabled (fst (analyzeLexical answer s))
       = (if trim (codeInput_value s) \<noteq> []
             \<and> (case answer of Rejected message \<Rightarrow> False | Resolved data \<Rightarrow> success data)
          then False else compileBtn_disabled s)"
    by (simp add: analyzeLexical_def Let_def showError_def hideError_def clearOutputs_def
          displayTokens_def displaySymbolTable_def showTypeInputs_def split: fetched.split)
  show ?thesis using sent[of s] idle gate enable by (simp only: simp_thms)
qed

text \<open>
  C1, as stated, fails: right after a reset, with no analysis done, a call of \<open>compile\<close> sends a
  request to the service.
\<close>

theorem compile_while_idle_counterexample:
  "snd (compile (Rejected ''Failed to fetch'') (reset loaded)) = [CompileRequest [] []]
   \<and> snd (compile (Rejected ''Failed to fetch'') (reset loaded)) \<noteq> []"
  by (simp add: compile_def Let_def getTypeTable_reset stringify_def)
     (simp add: reset_def hideError_def clearOutputs_def trim_literals)


lemma sum_analysed_fields:
  "currentSymbolTable sum_analysed = [(''x'', ''0''), (''a'', ''1''), (''b'', ''2'')]"
  "typeInputs sum_analysed = [\<lparr>variable = ''a'', selected = IntOption\<rparr>, \<lparr>variable = ''b'', selected = IntOption\<rparr>]"
  "codeInput_value sum_analysed = ''x = a + b''"
  \<open>tokensOutput_innerHTML sum_analysed = ''<span class="token ID">x</span>''\<close>
  by (simp_all add: sum_analysed_def analyzeLexical_def analysis_def typed_def loaded_def Let_def
        trim_literals clearOutputs_def hideError_def displayTokens_def displaySymbolTable_def
        showTypeInputs_def inputVariables_def split_first_def)

text \<open>
  C2, as the code has it. When an analysis fails (the text is empty after trimming, the
  service answers \<open>success: false\<close>, or the request is rejected), the stored symbol table, the
  type prompts, the prompt section, the compile button and the code input stay as they were
  and an error is shown. The displayed artifacts stay as they were only when the text was
  empty, in which case no request is sent; otherwise they were set back to their placeholders
  before the request went out, and stay so.
\<close>

theorem failed_analyze:
  assumes "trim (codeInput_value s) = [] \<or> failed outcome"
  shows "currentSymbolTable (fst (analyzeLexical outcome s)) = currentSymbolTable s
     \<and> compileBtn_disabled (fst (analyzeLexical outcome s)) = compileBtn_disabled s
     \<and> typeInputs (fst (analyzeLexical outcome s)) = typeInputs s
     \<and> typeTableSection_display (fst (analyzeLexical outcome s)) = typeTableSection_display s
     \<and> codeInput_value (fst (analyzeLexical outcome s)) = codeInput_value s
     \<and> errorDisplay_display (fst (analyzeLexical outcome s)) = ''block''
     \<and> artifacts (fst (analyzeLexical outcome s))
         = (if trim (codeInput_value s) = [] then artifacts s else artifacts (clearOutputs s))
     \<and> snd (analyzeLexical outcome s)
         = (if trim (codeInput_value s) = [] then [] else [LexicalRequest (trim (codeInput_value s))])"
  using assms
  by (auto simp add: analyzeLexical_def failed_def Let_def showError_def hideError_def
        clearOutputs_def artifacts_def split: fetched.splits)

text \<open>
  C2 at work, after \<open>x = a + b\<close> was analysed. An analysis that the service refuses keeps the
  stored symbol table and leaves the token view at its placeholder. An analysis of a text
  that is one no-break space (U+00A0) fails validation: nothing is sent, whatever the service
  would answer, and symbol table and artifacts stay as they were.
\<close>

theorem failed_analyze_witness:
  \<open>failed (Resolved (refusal ''Unexpected token''))
   \<and> currentSymbolTable (fst (analyzeLexical (Resolved (refusal ''Unexpected token'')) sum_analysed))
       = [(''x'', ''0''), (''a'', ''1''), (''b'', ''2'')]
   \<and> tokensOutput_innerHTML (fst (analyzeLexical (Resolved (refusal ''Unexpected token'')) sum_analysed))
       = ''<span style="color:#666;">Click "Analyze Code" to see tokens...</span>''
   \<and> trim [CHR 0xC2, CHR 0xA0] = []
   \<and> snd (analyzeLexical (Resolved (analysis [] [])) (typed [CHR 0xC2, CHR 0xA0] sum_analysed)) = []
   \<and> currentSymbolTable
         (fst (analyzeLexical (Resolved (analysis [] [])) (typed [CHR 0xC2, CHR 0xA0] sum_analysed)))
       = [(''x'', ''0''), (''a'', ''1''), (''b'', ''2'')]
   \<and> artifacts
         (fst (analyzeLexical (Resolved (analysis [] [])) (typed [CHR 0xC2, CHR 0xA0] sum_analysed)))
       = artifacts sum_analysed\<close>
proof -
  have f: "failed (Resolved (refusal ''Unexpected token''))"
    by (simp add: failed_def refusal_def)
  then have h: "trim (codeInput_value sum_analysed) = [] \<or> failed (Resolved (refusal ''Unexpected token''))"
    by simp
  have n: "trim [CHR 0xC2, CHR 0xA0] = []"
    by (simp add: trim_def trimStart_def trimEnd_def strip.simps white_space_def)
  then have v: "trim (codeInput_value (typed [CHR 0xC2, CHR 0xA0] sum_analysed)) = []
       \<or> failed (Resolved (analysis [] []))"
    by (simp add: typed_def)
  show ?thesis
    using f n failed_analyze[OF h] failed_analyze[OF v]
    by (simp add: sum_analysed_fields trim_literals artifacts_def clearOutputs_def typed_def)
qed

text \<open>
  C2, as stated, fails: after \<open>x = a + b\<close> was analysed, an analysis that the service refuses
  changes the displayed artifacts.
\<close>

theorem failed_analyze_clears_counterexample:
  "artifacts (fst (analyzeLexical (Resolved (refusal ''Unexpected token'')) sum_analysed))
     \<noteq> artifacts sum_analysed"
  by (simp add: analyzeLexical_def refusal_def Let_def sum_analysed_fields trim_literals
        artifacts_def clearOutputs_def hideError_def showError_def)


lemma inputs_analysed_fields:
  "currentSymbolTable inputs_analysed = [(''y'', ''0''), (''inputs'', ''1'')]"
  "typeInputs inputs_analysed = [\<lparr>variable = ''inputs'', selected = IntOption\<rparr>]"
  "codeInput_value inputs_analysed = ''y = inputs + 1''"
  by (simp_all add: inputs_analysed_def analyzeLexical_def analysis_def typed_def loaded_def Let_def
        trim_literals clearOutputs_def hideError_def displayTokens_def displaySymbolTable_def
        showTypeInputs_def inputVariables_def split_first_def)

lemma constant_analysed_fields:
  "currentSymbolTable constant_analysed = [(''a'', ''0'')]"
  "typeInputs constant_analysed = [\<lparr>variable = ''a'', selected = IntOption\<rparr>, \<lparr>variable = ''b'', selected = IntOption\<rparr>]"
  "codeInput_value constant_analysed = ''a = 5''"
  "typeTableSection_display constant_analysed = ''none''"
  by (simp_all add: constant_analysed_def analyzeLexical_def analysis_def typed_def Let_def
        trim_literals clearOutputs_def hideError_def displayTokens_def displaySymbolTable_def
        showTypeInputs_def inputVariables_def split_first_def sum_analysed_fields)

lemma map_of_collectTypes:
  "map_of (collectTypes s ks acc) v =
     (if v \<in> set ks
      then (case getElementById s (''type-'' @ v) of
              Some e \<Rightarrow> Some (elementValue e)
            | None \<Rightarrow> map_of acc v)
      else map_of acc v)"
  by (induction ks arbitrary: acc) (auto simp add: update_conv' split: option.splits)

lemma distinct_collectTypes:
  "distinct (map fst acc) \<Longrightarrow> distinct (map fst (collectTypes s ks acc))"
  by (induction ks arbitrary: acc) (auto simp add: distinct_update split: option.splits)

lemma map_of_getTypeTable:
  "map_of (getTypeTable s) v =
     (if v \<in> fst ` set (currentSymbolTable s)
      then map_option elementValue (getElementById s (''type-'' @ v))
      else None)"
  by (simp add: getTypeTable_def map_of_collectTypes split: option.split)

lemma keys_getTypeTable:
  "fst ` set (getTypeTable s)
     = {v \<in> fst ` set (currentSymbolTable s). getElementById s (''type-'' @ v) \<noteq> None}"
proof -
  have "fst ` set (getTypeTable s) = dom (map_of (getTypeTable s))"
    by (simp add: dom_map_of_conv_image_fst)
  also have "\<dots> = {v \<in> fst ` set (currentSymbolTable s). getElementById s (''type-'' @ v) \<noteq> None}"
    by (auto simp add: dom_def map_of_getTypeTable split: if_splits)
  finally show ?thesis .
qed

lemma getTypeTable_sum_analysed:
  "getTypeTable sum_analysed = [(''a'', JString ''int''), (''b'', JString ''int'')]"
  by (simp add: getTypeTable_def getElementById_def sum_analysed_fields)

lemma getTypeTable_constant_analysed:
  "getTypeTable constant_analysed = [(''a'', JString ''int'')]"
  by (simp add: getTypeTable_def getElementById_def constant_analysed_fields)

lemma getTypeTable_inputs_analysed:
  "getTypeTable inputs_analysed = [(''inputs'', JUndefined)]"
  by (simp add: getTypeTable_def getElementById_def inputs_analysed_fields)

text \<open>
  C7 fails on the code when selects are left over. When \<open>a = 5\<close> is analysed after \<open>x = a + b\<close>,
  no name is prompted for, and \<open>showTypeInputs\<close> hides the prompt section without emptying it:
  the selects of \<open>a\<close> and \<open>b\<close> stay in the document. \<open>getTypeTable\<close> then finds the select of \<open>a\<close>,
  the assigned variable, and returns a table with that one name, which the compile request
  carries; the names prompted for that have a select are none.
\<close>

theorem getTypeTable_stale_select:
  "inputVariables (currentSymbolTable constant_analysed) (codeInput_value constant_analysed) = []
   \<and> typeTableSection_display constant_analysed = ''none''
   \<and> map variable (typeInputs constant_analysed) = [''a'', ''b'']
   \<and> getTypeTable constant_analysed = [(''a'', JString ''int'')]
   \<and> snd (compile outcome constant_analysed) = [CompileRequest ''a = 5'' [(''a'', ''int'')]]"
  by (simp add: getTypeTable_constant_analysed constant_analysed_fields inputVariables_def
        split_first_def trim_literals compile_def Let_def stringify_def split: fetched.split)

text \<open>
  C10 fails on the code for a variable named \<open>inputs\<close>: the id of its select, \<open>type-inputs\<close>, is
  the id of the container of the prompts, which \<open>getElementById\<close> finds first. After
  \<open>y = inputs + 1\<close> was analysed, with the select of \<open>inputs\<close> in place, the table maps \<open>inputs\<close>
  to \<open>undefined\<close>, and the compile request carries an empty type table.
\<close>

theorem getTypeTable_undefined_value:
  "currentSymbolTable inputs_analysed = [(''y'', ''0''), (''inputs'', ''1'')]
   \<and> typeInputs inputs_analysed = [\<lparr>variable = ''inputs'', selected = IntOption\<rparr>]
   \<and> getTypeTable inputs_analysed = [(''inputs'', JUndefined)]
   \<and> snd (compile outcome inputs_analysed) = [CompileRequest ''y = inputs + 1'' []]"
  by (simp add: getTypeTable_inputs_analysed inputs_analysed_fields compile_def Let_def
        trim_literals stringify_def split: fetched.split)

end
